theory Spec2Isabelle
  imports Complex_Main
begin

section \<open>Popup placement (class DashboardWindow)\<close>

text \<open>
  Gdk.Rectangle: integer pixel geometry. It describes a monitor
  (\<open>monitor.get_geometry()\<close>) or the bounding box of the tray icon
  (\<open>status_icon.get_geometry()\<close>). Python integers are unbounded, so the
  fields are of type \<open>int\<close>.
\<close>

record rectangle =
  rect_x :: int
  rect_y :: int
  rect_width :: int
  rect_height :: int

text \<open>
  What the two placement methods read from \<open>Gdk.Display.get_default()\<close>:
  the pointer position (\<open>None\<close> when the display has no default seat or
  the seat has no pointer) and \<open>get_monitor_at_point\<close>, which may find no
  monitor. The display itself may be missing, hence \<open>gdk_display option\<close>
  in the methods below.
\<close>

record gdk_display =
  seat_pointer :: "(int \<times> int) option"
  monitor_at_point :: "int \<Rightarrow> int \<Rightarrow> rectangle option"

text \<open>\<open>self.default_width\<close>, \<open>self.default_height\<close> (set in \<open>__init__\<close>).\<close>

definition default_width :: int where
  "default_width = 430"

definition default_height :: int where
  "default_height = 560"

text \<open>The local constant \<open>margin = 8\<close> of both placement methods.\<close>

definition margin :: int where
  "margin = 8"

text \<open>
  \<open>width, height = self.get_size()\<close>, each replaced by the default when it
  is at most 1.
\<close>

definition effective_size :: "int \<times> int \<Rightarrow> int \<times> int" where
  "effective_size sz =
     (let width = fst sz; height = snd sz;
          width = (if width \<le> 1 then default_width else width);
          height = (if height \<le> 1 then default_height else height)
      in (width, height))"

text \<open>
  The target before clamping in \<open>present_near_pointer\<close>: left of the pointer,
  above it when the pointer is past the vertical middle of the monitor and
  below it otherwise. \<open>//\<close> is floor division, as \<open>div\<close> on \<open>int\<close>.
\<close>

definition pointer_target :: "int \<Rightarrow> int \<Rightarrow> rectangle \<Rightarrow> int \<Rightarrow> int \<Rightarrow> int \<times> int" where
  "pointer_target px py monitor_geo width height =
     (let target_x = px - width + 24;
          target_y = (if py > rect_y monitor_geo + (rect_height monitor_geo div 2)
                      then py - height - margin
                      else py + margin)
      in (target_x, target_y))"

text \<open>
  The target before clamping in \<open>present_from_icon_geometry\<close>: centred on
  the icon, above it unless that is higher than the top margin of the
  monitor, in which case below it.
\<close>

definition icon_target :: "rectangle \<Rightarrow> rectangle \<Rightarrow> int \<Rightarrow> int \<Rightarrow> int \<times> int" where
  "icon_target area monitor_geo width height =
     (let icon_center_x = rect_x area + (rect_width area div 2);
          target_x = icon_center_x - (width div 2);
          target_y = rect_y area - height - margin;
          target_y = (if target_y < rect_y monitor_geo + margin
                      then rect_y area + rect_height area + margin
                      else target_y)
      in (target_x, target_y))"

text \<open>
  The last step of both methods: \<open>min_x\<close>, \<open>max_x\<close>, \<open>min_y\<close>, \<open>max_y\<close> and
  \<open>max(min_x, min(target_x, max_x))\<close>, \<open>max(min_y, min(target_y, max_y))\<close>.
\<close>

definition clamp_to_monitor :: "rectangle \<Rightarrow> int \<Rightarrow> int \<Rightarrow> int \<times> int \<Rightarrow> int \<times> int" where
  "clamp_to_monitor monitor_geo width height target =
     (let min_x = rect_x monitor_geo + margin;
          max_x = rect_x monitor_geo + rect_width monitor_geo - width - margin;
          min_y = rect_y monitor_geo + margin;
          max_y = rect_y monitor_geo + rect_height monitor_geo - height - margin;
          target_x = max min_x (min (fst target) max_x);
          target_y = max min_y (min (snd target) max_y)
      in (target_x, target_y))"

text \<open>
  \<open>DashboardWindow.present_near_pointer\<close>. The first argument is the default
  display, the second \<open>self.get_size()\<close>. The result is the argument of
  \<open>self.move\<close>: \<open>Some (x, y)\<close> when the window is moved before it is
  presented, \<open>None\<close> on the early returns that present it where it is.
\<close>

definition present_near_pointer :: "gdk_display option \<Rightarrow> int \<times> int \<Rightarrow> (int \<times> int) option" where
  "present_near_pointer display sz =
     (case display of
        None \<Rightarrow> None
      | Some d \<Rightarrow>
          (case seat_pointer d of
             None \<Rightarrow> None
           | Some (px, py) \<Rightarrow>
               (case monitor_at_point d px py of
                  None \<Rightarrow> None
                | Some monitor_geo \<Rightarrow>
                    (let (width, height) = effective_size sz
                     in Some (clamp_to_monitor monitor_geo width height
                                (pointer_target px py monitor_geo width height))))))"

text \<open>
  \<open>DashboardWindow.present_from_icon_geometry\<close>: without a display or a
  monitor at the icon it falls back to \<open>present_near_pointer\<close>.
\<close>

definition present_from_icon_geometry ::
    "gdk_display option \<Rightarrow> rectangle \<Rightarrow> int \<times> int \<Rightarrow> (int \<times> int) option" where
  "present_from_icon_geometry display area sz =
     (case display of
        None \<Rightarrow> present_near_pointer display sz
      | Some d \<Rightarrow>
          (case monitor_at_point d (rect_x area) (rect_y area) of
             None \<Rightarrow> present_near_pointer display sz
           | Some monitor_geo \<Rightarrow>
               (let (width, height) = effective_size sz
                in Some (clamp_to_monitor monitor_geo width height
                           (icon_target area monitor_geo width height)))))"

text \<open>
  The popup rectangle with top-left corner \<open>p\<close> and the given size lies
  inside the monitor rectangle.
\<close>

definition popup_inside :: "rectangle \<Rightarrow> int \<Rightarrow> int \<Rightarrow> int \<times> int \<Rightarrow> bool" where
  "popup_inside monitor_geo width height p =
     (rect_x monitor_geo \<le> fst p \<and>
      fst p + width \<le> rect_x monitor_geo + rect_width monitor_geo \<and>
      rect_y monitor_geo \<le> snd p \<and>
      snd p + height \<le> rect_y monitor_geo + rect_height monitor_geo)"

text \<open>The interval the clamp step promises on each axis.\<close>

definition in_clamp_bounds :: "rectangle \<Rightarrow> int \<Rightarrow> int \<Rightarrow> int \<times> int \<Rightarrow> bool" where
  "in_clamp_bounds monitor_geo width height p =
     (rect_x monitor_geo + margin \<le> fst p \<and>
      fst p \<le> rect_x monitor_geo + rect_width monitor_geo - width - margin \<and>
      rect_y monitor_geo + margin \<le> snd p \<and>
      snd p \<le> rect_y monitor_geo + rect_height monitor_geo - height - margin)"

text \<open>
  A display with a single monitor: \<open>get_monitor_at_point\<close> answers with
  that monitor for every point (Gdk picks the nearest monitor for a point
  outside all of them).
\<close>

definition single_monitor_display :: "rectangle \<Rightarrow> (int \<times> int) option \<Rightarrow> gdk_display" where
  "single_monitor_display geo ptr =
     \<lparr>seat_pointer = ptr, monitor_at_point = (\<lambda>_ _. Some geo)\<rparr>"

section \<open>Usage rendering (class CodexBarTray)\<close>

text \<open>
  A Python \<open>str\<close> is a sequence of Unicode code points; its length, which
  the padding of a format field counts, is the number of code points. The
  bar and the reset mark are outside ASCII, so a string is a list of code
  points here and \<open>ascii\<close> embeds an ASCII literal.
\<close>

type_synonym pystr = "nat list"

definition ascii :: "string \<Rightarrow> pystr" where
  "ascii s = map of_char s"

text \<open>The glyphs U+2588 (full block), U+00B7 (middle dot), U+21BA (arrow).\<close>

definition FULL_BLOCK :: nat where
  "FULL_BLOCK = 0x2588"

definition MIDDLE_DOT :: nat where
  "MIDDLE_DOT = 0xB7"

definition RESET_ARROW :: nat where
  "RESET_ARROW = 0x21BA"

text \<open>
  A Python \<open>float\<close>. A finite float is represented by the rational number
  it denotes, and arithmetic on finite floats is taken exact (the rounding
  of a floating-point operation to the nearest double is not modelled);
  the infinities and NaN, which \<open>json.loads\<close> produces for \<open>1e999\<close>,
  \<open>Infinity\<close>, \<open>-Infinity\<close> and \<open>NaN\<close>, are values of their own.
\<close>

datatype pyfloat = Finite rat | PosInf | NegInf | NaN

text \<open>
  What \<open>json.loads\<close> returns: \<open>None\<close>, \<open>bool\<close>, \<open>int\<close>, \<open>float\<close>, \<open>str\<close>,
  \<open>list\<close> and \<open>dict\<close>. A \<open>dict\<close> with string keys is an association list
  read with \<open>map_of\<close>.
\<close>

datatype json =
    JNull
  | JBool bool
  | JInt int
  | JFloat pyfloat
  | JStr pystr
  | JList "json list"
  | JDict "(pystr \<times> json) list"

type_synonym pydict = "(pystr \<times> json) list"

text \<open>
  \<open>d.get(k)\<close> for a dict \<open>d\<close>: \<open>None\<close> stands for the missing key (Python's
  \<open>None\<close> default), \<open>Some JNull\<close> for a key bound to JSON \<open>null\<close>.
\<close>

definition dict_get :: "pydict \<Rightarrow> string \<Rightarrow> json option" where
  "dict_get d k = map_of d (ascii k)"

text \<open>The exceptions the modelled code can raise.\<close>

datatype pyerror = OverflowError | ValueError | AttributeError

text \<open>An \<open>int\<close> or a \<open>float\<close> value.\<close>

datatype pynum = PyInt int | PyFloat pyfloat

text \<open>
  \<open>isinstance(v, (int, float))\<close>, with the number when it holds. \<open>bool\<close> is
  a subclass of \<open>int\<close> in Python, so \<open>True\<close> and \<open>False\<close> pass the test and
  count as 1 and 0 in arithmetic.
\<close>

fun int_or_float :: "json option \<Rightarrow> pynum option" where
  "int_or_float (Some (JBool b)) = Some (PyInt (if b then 1 else 0))"
| "int_or_float (Some (JInt i)) = Some (PyInt i)"
| "int_or_float (Some (JFloat f)) = Some (PyFloat f)"
| "int_or_float v = None"

text \<open>\<open>a - v\<close> for an \<open>int\<close> \<open>a\<close>.\<close>

fun py_rsub :: "int \<Rightarrow> pynum \<Rightarrow> pynum" where
  "py_rsub a (PyInt i) = PyInt (a - i)"
| "py_rsub a (PyFloat (Finite r)) = PyFloat (Finite (of_int a - r))"
| "py_rsub a (PyFloat PosInf) = PyFloat NegInf"
| "py_rsub a (PyFloat NegInf) = PyFloat PosInf"
| "py_rsub a (PyFloat NaN) = PyFloat NaN"

text \<open>Rounding to the nearest integer, a tie to the even neighbour.\<close>

definition round_half_even :: "rat \<Rightarrow> int" where
  "round_half_even q =
     (let f = \<lfloor>q\<rfloor>; d = q - of_int f
      in if d < 1 / 2 then f
         else if 1 / 2 < d then f + 1
         else if even f then f else f + 1)"

text \<open>
  \<open>round(v)\<close> with one argument: an \<open>int\<close> is returned as it is, a finite
  \<open>float\<close> is rounded half to even, an infinity raises \<open>OverflowError\<close>
  and NaN raises \<open>ValueError\<close>.
\<close>

fun py_round :: "pynum \<Rightarrow> pyerror + int" where
  "py_round (PyInt i) = Inr i"
| "py_round (PyFloat (Finite r)) = Inr (round_half_even r)"
| "py_round (PyFloat PosInf) = Inl OverflowError"
| "py_round (PyFloat NegInf) = Inl OverflowError"
| "py_round (PyFloat NaN) = Inl ValueError"

text \<open>
  \<open>a / b\<close> for \<open>int\<close>s with \<open>b\<close> not zero (true division, a \<open>float\<close>). It
  is used with \<open>0 \<le> a \<le> 100\<close> and \<open>b = 10\<close>, where the quotient is either
  a representable half-integer or further from every half-integer than the
  rounding error of the division, so that \<open>round\<close> of the double and of the
  exact quotient agree.
\<close>

definition py_truediv :: "int \<Rightarrow> int \<Rightarrow> pynum" where
  "py_truediv a b = PyFloat (Finite (of_int a / of_int b))"

text \<open>\<open>str(n)\<close> for an \<open>int\<close>: decimal digits, with a minus sign.\<close>

fun dec_nat :: "nat \<Rightarrow> pystr" where
  "dec_nat n = (if n < 10 then [48 + n] else dec_nat (n div 10) @ [48 + n mod 10])"

declare dec_nat.simps [simp del]

definition dec :: "int \<Rightarrow> pystr" where
  "dec i = (if i < 0 then 45 # dec_nat (nat (- i)) else dec_nat (nat i))"

text \<open>
  The format fields \<open><n\<close> and \<open>>n\<close>: padding with spaces on the right or on
  the left up to \<open>n\<close> code points; a longer text is left as it is.
\<close>

definition ljust :: "nat \<Rightarrow> pystr \<Rightarrow> pystr" where
  "ljust n s = s @ replicate (n - length s) 32"

definition rjust :: "nat \<Rightarrow> pystr \<Rightarrow> pystr" where
  "rjust n s = replicate (n - length s) 32 @ s"

text \<open>\<open>"\<dots>" * n\<close>: the empty string for \<open>n \<le> 0\<close>.\<close>

definition py_repeat :: "nat \<Rightarrow> int \<Rightarrow> pystr" where
  "py_repeat c n = replicate (nat n) c"

text \<open>
  Line 639 of \<open>_window_text\<close>:
  \<open>remaining = max(0, min(100, int(round(100 - used))))\<close>.
\<close>

definition remaining_percent :: "pynum \<Rightarrow> pyerror + int" where
  "remaining_percent used =
     (case py_round (py_rsub 100 used) of
        Inl e \<Rightarrow> Inl e
      | Inr r \<Rightarrow> Inr (max 0 (min 100 r)))"

text \<open>Line 640: \<open>filled = max(0, min(10, int(round(remaining / 10))))\<close>.\<close>

definition filled_cells :: "int \<Rightarrow> pyerror + int" where
  "filled_cells remaining =
     (case py_round (py_truediv remaining 10) of
        Inl e \<Rightarrow> Inl e
      | Inr r \<Rightarrow> Inr (max 0 (min 10 r)))"

text \<open>Line 641: the bar of full blocks followed by middle dots.\<close>

definition usage_bar :: "int \<Rightarrow> pystr" where
  "usage_bar filled = py_repeat FULL_BLOCK filled @ py_repeat MIDDLE_DOT (10 - filled)"

text \<open>
  \<open>CodexBarTray._window_text(title, window)\<close> for a \<open>dict\<close> \<open>window\<close>:
  \<open>Inr\<close> the returned string, \<open>Inl\<close> the exception raised.
\<close>

definition window_text :: "pystr \<Rightarrow> pydict \<Rightarrow> pyerror + pystr" where
  "window_text title window =
     (case int_or_float (dict_get window ''usedPercent'') of
        None \<Rightarrow> Inr (title @ ascii '': --'')
      | Some used \<Rightarrow>
          (case remaining_percent used of
             Inl e \<Rightarrow> Inl e
           | Inr remaining \<Rightarrow>
               (case filled_cells remaining of
                  Inl e \<Rightarrow> Inl e
                | Inr filled \<Rightarrow>
                    (let bar = usage_bar filled;
                         line = ljust 8 title @ ascii '' '' @ rjust 3 (dec remaining)
                                  @ ascii ''%  '' @ bar
                     in (case dict_get window ''resetDescription'' of
                           Some (JStr reset_desc) \<Rightarrow>
                             (if reset_desc \<noteq> []
                              then Inr (line @ ascii ''  '' @ [RESET_ARROW] @ ascii '' ''
                                          @ reset_desc)
                              else Inr line)
                         | _ \<Rightarrow> Inr line)))))"

text \<open>
  The same call when \<open>window\<close> may be any JSON value: the first statement,
  \<open>window.get("usedPercent")\<close>, raises \<open>AttributeError\<close> unless it is a
  \<open>dict\<close>.
\<close>

definition window_text_any :: "pystr \<Rightarrow> json \<Rightarrow> pyerror + pystr" where
  "window_text_any title window =
     (case window of JDict d \<Rightarrow> window_text title d | _ \<Rightarrow> Inl AttributeError)"

text \<open>\<open>CodexBarTray._provider_title\<close>: the table, with the id as default.\<close>

definition provider_title :: "pystr \<Rightarrow> pystr" where
  "provider_title provider_id =
     (case map_of
        [(ascii ''codex'', ascii ''Codex''),
         (ascii ''claude'', ascii ''Claude''),
         (ascii ''cursor'', ascii ''Cursor''),
         (ascii ''opencode'', ascii ''OpenCode''),
         (ascii ''factory'', ascii ''Droid''),
         (ascii ''gemini'', ascii ''Gemini''),
         (ascii ''antigravity'', ascii ''Antigravity''),
         (ascii ''copilot'', ascii ''Copilot''),
         (ascii ''zai'', ascii ''z.ai''),
         (ascii ''minimax'', ascii ''MiniMax''),
         (ascii ''kimi'', ascii ''Kimi''),
         (ascii ''kiro'', ascii ''Kiro''),
         (ascii ''vertexai'', ascii ''Vertex AI''),
         (ascii ''augment'', ascii ''Augment''),
         (ascii ''jetbrains'', ascii ''JetBrains AI''),
         (ascii ''kimik2'', ascii ''Kimi K2''),
         (ascii ''amp'', ascii ''Amp''),
         (ascii ''synthetic'', ascii ''Synthetic'')] provider_id of
        Some name \<Rightarrow> name
      | None \<Rightarrow> provider_id)"

text \<open>
  \<open>str(v)\<close>, which is also what a plain format field \<open>{v}\<close> gives: a \<open>str\<close>
  is returned as it is, \<open>None\<close>, \<open>bool\<close> and \<open>int\<close> have fixed texts. The
  text of a \<open>float\<close>, \<open>list\<close> or \<open>dict\<close> is left to the parameter \<open>repr\<close>.
\<close>

fun py_str :: "(json \<Rightarrow> pystr) \<Rightarrow> json \<Rightarrow> pystr" where
  "py_str repr (JStr s) = s"
| "py_str repr JNull = ascii ''None''"
| "py_str repr (JBool b) = (if b then ascii ''True'' else ascii ''False'')"
| "py_str repr (JInt i) = dec i"
| "py_str repr v = repr v"

text \<open>\<open>d.get(k, default)\<close>.\<close>

definition dict_get_default :: "pydict \<Rightarrow> string \<Rightarrow> json \<Rightarrow> json" where
  "dict_get_default d k dflt = (case dict_get d k of None \<Rightarrow> dflt | Some v \<Rightarrow> v)"

text \<open>The truth value of a JSON value in a Boolean context.\<close>

fun truthy :: "json \<Rightarrow> bool" where
  "truthy JNull = False"
| "truthy (JBool b) = b"
| "truthy (JInt i) = (i \<noteq> 0)"
| "truthy (JFloat f) = (f \<noteq> Finite 0)"
| "truthy (JStr s) = (s \<noteq> [])"
| "truthy (JList l) = (l \<noteq> [])"
| "truthy (JDict d) = (d \<noteq> [])"

text \<open>\<open>v or {}\<close> for the result \<open>v\<close> of a \<open>get\<close>.\<close>

definition or_empty_dict :: "json option \<Rightarrow> json" where
  "or_empty_dict v =
     (case v of None \<Rightarrow> JDict [] | Some j \<Rightarrow> if truthy j then j else JDict [])"

text \<open>
  \<open>obj.get(k)\<close> for any JSON value \<open>obj\<close>: only a \<open>dict\<close> has the method.
\<close>

definition attr_get :: "json \<Rightarrow> string \<Rightarrow> pyerror + json option" where
  "attr_get obj k = (case obj of JDict d \<Rightarrow> Inr (dict_get d k) | _ \<Rightarrow> Inl AttributeError)"

text \<open>
  The entries of the tray menu: \<open>_append_info\<close> adds an insensitive item
  with a label, set as markup or as text; \<open>_append_separator\<close> a separator;
  \<open>_append_action\<close> an item with a callback.
\<close>

datatype menu_item = Info pystr bool | Separator | Action pystr

definition append_info :: "pystr \<Rightarrow> bool \<Rightarrow> menu_item list \<Rightarrow> menu_item list" where
  "append_info label markup menu = menu @ [Info label markup]"

definition append_separator :: "menu_item list \<Rightarrow> menu_item list" where
  "append_separator menu = menu @ [Separator]"

text \<open>
  The end of \<open>_append_provider_block\<close> (lines 629 to 632): the account line,
  when \<open>usage.get("accountEmail")\<close> is a non-empty \<open>str\<close>, and the separator.
  \<open>usage\<close> is a \<open>dict\<close> here, the earlier \<open>usage.get\<close> calls having passed.
\<close>

definition append_account :: "json \<Rightarrow> menu_item list \<Rightarrow> menu_item list \<times> pyerror option" where
  "append_account usage menu =
     (case attr_get usage ''accountEmail'' of
        Inl e \<Rightarrow> (menu, Some e)
      | Inr (Some (JStr email)) \<Rightarrow>
          (if email \<noteq> []
           then (append_separator
                   (append_info (ascii ''<tt>Account  '' @ email @ ascii ''</tt>'') True menu), None)
           else (append_separator menu, None))
      | Inr _ \<Rightarrow> (append_separator menu, None))"

text \<open>
  \<open>CodexBarTray._append_provider_block(payload)\<close> on the menu \<open>menu\<close>: the
  menu afterwards, and the exception when one is raised on the way (the
  items appended before it stay in the menu). Two parameters stand for
  Python's text of values this theory does not spell out: \<open>repr\<close> (see
  \<open>py_str\<close>) and \<open>fmt_1f\<close>, the format field \<open>:.1f\<close> of a number, which
  raises \<open>OverflowError\<close> for an \<open>int\<close> too large for a \<open>float\<close>.
\<close>

definition append_provider_block ::
    "(json \<Rightarrow> pystr) \<Rightarrow> (pynum \<Rightarrow> pyerror + pystr) \<Rightarrow> pydict \<Rightarrow> menu_item list
       \<Rightarrow> menu_item list \<times> pyerror option" where
  "append_provider_block repr fmt_1f payload menu =
     (let name = provider_title
                   (py_str repr (dict_get_default payload ''provider'' (JStr (ascii ''unknown''))));
          menu = append_info (ascii ''<b>'' @ name @ ascii ''</b>'') True menu
      in (case dict_get payload ''error'' of
            Some (JDict error) \<Rightarrow>
              (append_separator
                 (append_info
                    (ascii ''  Error: '' @
                       py_str repr (dict_get_default error ''message'' (JStr (ascii ''unknown''))))
                    False menu),
               None)
          | _ \<Rightarrow>
              (let usage = or_empty_dict (dict_get payload ''usage'')
               in (case attr_get usage ''primary'' of
                     Inl e \<Rightarrow> (menu, Some e)
                   | Inr p \<Rightarrow>
                       (case attr_get usage ''secondary'' of
                          Inl e \<Rightarrow> (menu, Some e)
                        | Inr s \<Rightarrow>
                            (case window_text_any (ascii ''Session'') (or_empty_dict p) of
                               Inl e \<Rightarrow> (menu, Some e)
                             | Inr session \<Rightarrow>
                                 (case window_text_any (ascii ''Weekly'') (or_empty_dict s) of
                                    Inl e \<Rightarrow> (menu, Some e)
                                  | Inr weekly \<Rightarrow>
                                      (let menu = append_info
                                                    (ascii ''<tt>'' @ session @ ascii ''</tt>'')
                                                    True menu;
                                           menu = append_info
                                                    (ascii ''<tt>'' @ weekly @ ascii ''</tt>'')
                                                    True menu
                                       in (case dict_get payload ''credits'' of
                                             Some (JDict credits) \<Rightarrow>
                                               (case int_or_float (dict_get credits ''remaining'') of
                                                  Some n \<Rightarrow>
                                                    (case fmt_1f n of
                                                       Inl e \<Rightarrow> (menu, Some e)
                                                     | Inr txt \<Rightarrow>
                                                         append_account usage
                                                           (append_info
                                                              (ascii ''<tt>Credits  '' @ txt
                                                                 @ ascii ''</tt>'')
                                                              True menu))
                                                | None \<Rightarrow> append_account usage menu)
                                           | _ \<Rightarrow> append_account usage menu)))))))))"

section \<open>The dashboard rows (class DashboardWindow)\<close>

text \<open>
  \<open>float(v)\<close>: a \<open>float\<close> is returned as it is; an \<open>int\<close> is converted,
  and one that rounds to \<open>2 ** 1024\<close> or beyond raises \<open>OverflowError\<close>.
\<close>

fun py_float :: "pynum \<Rightarrow> pyerror + pyfloat" where
  "py_float (PyInt i) =
     (if \<bar>i\<bar> < 2 ^ 1024 - 2 ^ 970 then Inr (Finite (of_int i)) else Inl OverflowError)"
| "py_float (PyFloat f) = Inr f"

text \<open>
  \<open>x < y\<close> on floats: false whenever NaN takes part. Python compares an
  \<open>int\<close> with a \<open>float\<close> by their exact values, hence \<open>exact_value\<close>.
\<close>

fun float_less :: "pyfloat \<Rightarrow> pyfloat \<Rightarrow> bool" where
  "float_less NaN y = False"
| "float_less x NaN = False"
| "float_less x NegInf = False"
| "float_less NegInf y = True"
| "float_less PosInf y = False"
| "float_less (Finite a) PosInf = True"
| "float_less (Finite a) (Finite b) = (a < b)"

fun exact_value :: "pynum \<Rightarrow> pyfloat" where
  "exact_value (PyInt i) = Finite (of_int i)"
| "exact_value (PyFloat f) = f"

definition num_less :: "pynum \<Rightarrow> pynum \<Rightarrow> bool" where
  "num_less a b = float_less (exact_value a) (exact_value b)"

text \<open>
  \<open>min(a, b)\<close> and \<open>max(a, b)\<close> keep the first argument unless the second
  is smaller, respectively greater; the result keeps its own type.
\<close>

definition py_min :: "pynum \<Rightarrow> pynum \<Rightarrow> pynum" where
  "py_min a b = (if num_less b a then b else a)"

definition py_max :: "pynum \<Rightarrow> pynum \<Rightarrow> pynum" where
  "py_max a b = (if num_less a b then b else a)"

text \<open>\<open>v / 100.0\<close>.\<close>

fun div_100 :: "pynum \<Rightarrow> pyfloat" where
  "div_100 (PyInt i) = Finite (of_int i / 100)"
| "div_100 (PyFloat (Finite r)) = Finite (r / 100)"
| "div_100 (PyFloat f) = f"

text \<open>
  The widgets the dashboard builds, by what they show: a label with its
  text (\<open>Label\<close>) or markup (\<open>Markup\<close>), a progress bar with its fraction, a
  box with its children in packing order, a frame with its child.
  Alignment, spacing and style classes are left out.
\<close>

datatype widget =
    Label pystr
  | Markup pystr
  | ProgressBar pyfloat
  | Box "widget list"
  | Frame widget

text \<open>\<open>DashboardWindow._window_row(title, window)\<close> for a \<open>dict\<close> \<open>window\<close>.\<close>

definition window_row :: "pystr \<Rightarrow> pydict \<Rightarrow> pyerror + widget" where
  "window_row title window =
     (case int_or_float (dict_get window ''usedPercent'') of
        None \<Rightarrow> Inr (Label (title @ ascii '': --''))
      | Some used \<Rightarrow>
          (case py_float (py_rsub 100 used) of
             Inl e \<Rightarrow> Inl e
           | Inr f \<Rightarrow>
               (let remaining = py_max (PyInt 0) (py_min (PyInt 100) (PyFloat f))
                in (case py_round remaining of
                      Inl e \<Rightarrow> Inl e
                    | Inr r \<Rightarrow>
                        (let header = Box [Label title, Label (dec r @ ascii ''% left'')];
                             bar = ProgressBar
                                     (exact_value
                                        (py_max (PyFloat (Finite 0))
                                           (py_min (PyFloat (Finite 1))
                                              (PyFloat (div_100 remaining)))))
                         in (case dict_get window ''resetDescription'' of
                               Some (JStr reset_desc) \<Rightarrow>
                                 (if reset_desc \<noteq> []
                                  then Inr (Box [header, bar,
                                                 Label (ascii ''Resets '' @ reset_desc)])
                                  else Inr (Box [header, bar]))
                             | _ \<Rightarrow> Inr (Box [header, bar])))))))"

definition window_row_any :: "pystr \<Rightarrow> json \<Rightarrow> pyerror + widget" where
  "window_row_any title window =
     (case window of JDict d \<Rightarrow> window_row title d | _ \<Rightarrow> Inl AttributeError)"

text \<open>
  The end of \<open>_provider_card\<close> (lines 376 to 387): the credits and account
  labels after the rows \<open>rows\<close> already packed into the body.
\<close>

definition card_tail ::
    "(pynum \<Rightarrow> pyerror + pystr) \<Rightarrow> pydict \<Rightarrow> json \<Rightarrow> widget list \<Rightarrow> pyerror + widget" where
  "card_tail fmt_1f payload usage rows =
     (case (case dict_get payload ''credits'' of
              Some (JDict credits) \<Rightarrow>
                (case int_or_float (dict_get credits ''remaining'') of
                   Some n \<Rightarrow>
                     (case fmt_1f n of
                        Inl e \<Rightarrow> Inl e
                      | Inr txt \<Rightarrow> Inr (rows @ [Label (ascii ''Credits: '' @ txt)]))
                 | None \<Rightarrow> Inr rows)
            | _ \<Rightarrow> Inr rows) of
        Inl e \<Rightarrow> Inl e
      | Inr rows \<Rightarrow>
          (case attr_get usage ''accountEmail'' of
             Inl e \<Rightarrow> Inl e
           | Inr (Some (JStr email)) \<Rightarrow>
               (if email \<noteq> []
                then Inr (Frame (Box (rows @ [Label (ascii ''Account: '' @ email)])))
                else Inr (Frame (Box rows)))
           | Inr _ \<Rightarrow> Inr (Frame (Box rows))))"

text \<open>
  \<open>DashboardWindow._provider_card(payload)\<close>: the frame returned, or the
  exception raised. The parameters are those of \<open>append_provider_block\<close>.
\<close>

definition provider_card ::
    "(json \<Rightarrow> pystr) \<Rightarrow> (pynum \<Rightarrow> pyerror + pystr) \<Rightarrow> pydict \<Rightarrow> pyerror + widget" where
  "provider_card repr fmt_1f payload =
     (let name = provider_title
                   (py_str repr (dict_get_default payload ''provider'' (JStr (ascii ''unknown''))));
          title = Markup (ascii ''<span weight='' @ [39] @ ascii ''bold'' @ [39] @ ascii ''>''
                            @ name @ ascii ''</span>'')
      in (case dict_get payload ''error'' of
            Some (JDict error) \<Rightarrow>
              Inr (Frame (Box [title,
                     Label (ascii ''Error: '' @
                       py_str repr (dict_get_default error ''message'' (JStr (ascii ''unknown''))))]))
          | _ \<Rightarrow>
              (let usage = or_empty_dict (dict_get payload ''usage'')
               in (case attr_get usage ''primary'' of
                     Inl e \<Rightarrow> Inl e
                   | Inr p \<Rightarrow>
                       (case window_row_any (ascii ''Session'') (or_empty_dict p) of
                          Inl e \<Rightarrow> Inl e
                        | Inr session \<Rightarrow>
                            (case attr_get usage ''secondary'' of
                               Inl e \<Rightarrow> Inl e
                             | Inr s \<Rightarrow>
                                 (case window_row_any (ascii ''Weekly'') (or_empty_dict s) of
                                    Inl e \<Rightarrow> Inl e
                                  | Inr weekly \<Rightarrow>
                                      card_tail fmt_1f payload usage
                                        [title, session, weekly])))))))"

section \<open>The specification's formulas for the bar\<close>

text \<open>
  The value of a finite number as a rational; none for an infinity or NaN.
\<close>

fun num_value :: "pynum \<Rightarrow> rat option" where
  "num_value (PyInt i) = Some (of_int i)"
| "num_value (PyFloat (Finite r)) = Some r"
| "num_value (PyFloat f) = None"




text \<open>\<open>s.endswith(suffix)\<close>.\<close>

definition ends_with :: "pystr \<Rightarrow> pystr \<Rightarrow> bool" where
  "ends_with s suffix =
     (length suffix \<le> length s \<and> drop (length s - length suffix) s = suffix)"

section \<open>Properties of the placement\<close>

lemma effective_size_gt1:
  "effective_size sz = (w, h) \<Longrightarrow> 1 < w \<and> 1 < h"
  by (auto simp: effective_size_def Let_def default_width_def default_height_def
           split: if_splits)

lemma clamp_to_monitor_bounds:
  assumes "width + 2 * margin \<le> rect_width geo" and "height + 2 * margin \<le> rect_height geo"
  shows "in_clamp_bounds geo width height (clamp_to_monitor geo width height t)"
  using assms by (simp add: in_clamp_bounds_def clamp_to_monitor_def Let_def)

lemma in_clamp_bounds_inside:
  "in_clamp_bounds geo width height p \<Longrightarrow> popup_inside geo width height p"
  by (simp add: in_clamp_bounds_def popup_inside_def margin_def)

lemma present_near_pointer_eq:
  assumes "seat_pointer d = Some (px, py)" and "monitor_at_point d px py = Some geo"
      and "effective_size sz = (w, h)"
  shows "present_near_pointer (Some d) sz =
           Some (clamp_to_monitor geo w h (pointer_target px py geo w h))"
  using assms by (simp add: present_near_pointer_def)

lemma present_from_icon_geometry_eq:
  assumes "monitor_at_point d (rect_x area) (rect_y area) = Some geo"
      and "effective_size sz = (w, h)"
  shows "present_from_icon_geometry (Some d) area sz =
           Some (clamp_to_monitor geo w h (icon_target area geo w h))"
  using assms by (simp add: present_from_icon_geometry_def)

text \<open>
  Claim C1. When the popup with its margins fits the monitor in both
  dimensions, each of the two placement methods moves the window to a point
  within the clamp interval on both axes
  (\<open>[monitor.x + margin, monitor.x + monitor.width - width - margin]\<close> and the
  same vertically), and the whole popup rectangle lies inside the monitor.
  The size is the one the code places with (the default where \<open>get_size\<close>
  gives at most 1) and the margin is the code's constant 8.
\<close>

theorem placement_inside_monitor:
  assumes sz: "effective_size sz = (w, h)"
      and fit_w: "w + 2 * margin \<le> rect_width geo"
      and fit_h: "h + 2 * margin \<le> rect_height geo"
  shows "(seat_pointer d = Some (px, py) \<and> monitor_at_point d px py = Some geo \<longrightarrow>
            (\<exists>p. present_near_pointer (Some d) sz = Some p \<and>
                 in_clamp_bounds geo w h p \<and> popup_inside geo w h p)) \<and>
         (monitor_at_point d (rect_x area) (rect_y area) = Some geo \<longrightarrow>
            (\<exists>p. present_from_icon_geometry (Some d) area sz = Some p \<and>
                 in_clamp_bounds geo w h p \<and> popup_inside geo w h p))"
proof (intro conjI impI)
  assume "seat_pointer d = Some (px, py) \<and> monitor_at_point d px py = Some geo"
  then have "present_near_pointer (Some d) sz =
               Some (clamp_to_monitor geo w h (pointer_target px py geo w h))"
    using sz by (simp add: present_near_pointer_eq)
  moreover have "in_clamp_bounds geo w h (clamp_to_monitor geo w h (pointer_target px py geo w h))"
    using fit_w fit_h by (rule clamp_to_monitor_bounds)
  ultimately show "\<exists>p. present_near_pointer (Some d) sz = Some p \<and>
                     in_clamp_bounds geo w h p \<and> popup_inside geo w h p"
    using in_clamp_bounds_inside by blast
next
  assume "monitor_at_point d (rect_x area) (rect_y area) = Some geo"
  then have "present_from_icon_geometry (Some d) area sz =
               Some (clamp_to_monitor geo w h (icon_target area geo w h))"
    using sz by (simp add: present_from_icon_geometry_eq)
  moreover have "in_clamp_bounds geo w h (clamp_to_monitor geo w h (icon_target area geo w h))"
    using fit_w fit_h by (rule clamp_to_monitor_bounds)
  ultimately show "\<exists>p. present_from_icon_geometry (Some d) area sz = Some p \<and>
                     in_clamp_bounds geo w h p \<and> popup_inside geo w h p"
    using in_clamp_bounds_inside by blast
qed

theorem placement_inside_monitor_witness:
  "effective_size (300, 400) = (300, 400) \<and>
   300 + 2 * margin \<le> rect_width \<lparr>rect_x = 0, rect_y = 0, rect_width = 1000, rect_height = 800\<rparr> \<and>
   400 + 2 * margin \<le> rect_height \<lparr>rect_x = 0, rect_y = 0, rect_width = 1000, rect_height = 800\<rparr> \<and>
   present_near_pointer
     (Some (single_monitor_display
        \<lparr>rect_x = 0, rect_y = 0, rect_width = 1000, rect_height = 800\<rparr> (Some (990, 790))))
     (300, 400) = Some (692, 382) \<and>
   popup_inside \<lparr>rect_x = 0, rect_y = 0, rect_width = 1000, rect_height = 800\<rparr> 300 400 (692, 382) \<and>
   present_from_icon_geometry
     (Some (single_monitor_display
        \<lparr>rect_x = 0, rect_y = 0, rect_width = 1000, rect_height = 800\<rparr> (Some (990, 790))))
     \<lparr>rect_x = 970, rect_y = 770, rect_width = 24, rect_height = 24\<rparr>
     (300, 400) = Some (692, 362) \<and>
   popup_inside \<lparr>rect_x = 0, rect_y = 0, rect_width = 1000, rect_height = 800\<rparr> 300 400 (692, 362)"
  using placement_inside_monitor
    [of "(300, 400)" 300 400 "\<lparr>rect_x = 0, rect_y = 0, rect_width = 1000, rect_height = 800\<rparr>"
        "single_monitor_display
           \<lparr>rect_x = 0, rect_y = 0, rect_width = 1000, rect_height = 800\<rparr> (Some (990, 790))"
        990 790 "\<lparr>rect_x = 970, rect_y = 770, rect_width = 24, rect_height = 24\<rparr>"]
  by (simp add: effective_size_def margin_def single_monitor_display_def
        present_near_pointer_def present_from_icon_geometry_def pointer_target_def
        icon_target_def clamp_to_monitor_def popup_inside_def in_clamp_bounds_def)

text \<open>
  Claim C2, as stated, fails: for the monitor (0, 0, 1000, 800), the pointer
  at (900, 700), a popup of 300 by 400 and the margin 8, the code does not
  move the window to (624, 392).
\<close>

theorem pointer_example_not_392:
  "present_near_pointer
     (Some (single_monitor_display
        \<lparr>rect_x = 0, rect_y = 0, rect_width = 1000, rect_height = 800\<rparr> (Some (900, 700))))
     (300, 400) \<noteq> Some (624, 392)"
  by (simp add: effective_size_def margin_def single_monitor_display_def
        present_near_pointer_def pointer_target_def clamp_to_monitor_def)

text \<open>
  Claim C2, amended. The pointer's y = 700 is past the vertical middle 400 of
  the monitor, so the popup goes above the pointer: the target before
  clamping is (900 - 300 + 24, 700 - 400 - 8) = (624, 292), both coordinates
  are already within the clamp intervals [8, 692] and [8, 392], and the
  window is moved to (624, 292).
\<close>

theorem pointer_example_292:
  "pointer_target 900 700 \<lparr>rect_x = 0, rect_y = 0, rect_width = 1000, rect_height = 800\<rparr> 300 400
     = (624, 292) \<and>
   present_near_pointer
     (Some (single_monitor_display
        \<lparr>rect_x = 0, rect_y = 0, rect_width = 1000, rect_height = 800\<rparr> (Some (900, 700))))
     (300, 400) = Some (624, 292)"
  by (simp add: effective_size_def margin_def single_monitor_display_def
        present_near_pointer_def pointer_target_def clamp_to_monitor_def)

text \<open>
  Claim C3. In \<open>present_from_icon_geometry\<close> the point handed to the clamp
  step has x = area.x + area.width // 2 - width // 2; its y is
  area.y - height - margin (above the icon), unless that value is less than
  monitor.y + margin, and then it is area.y + area.height + margin (below
  the icon).
\<close>

theorem icon_target_center_and_flip:
  assumes "monitor_at_point d (rect_x area) (rect_y area) = Some geo"
      and "effective_size sz = (w, h)"
  shows "present_from_icon_geometry (Some d) area sz =
           Some (clamp_to_monitor geo w h (icon_target area geo w h)) \<and>
         fst (icon_target area geo w h) = rect_x area + rect_width area div 2 - w div 2 \<and>
         (rect_y area - h - margin < rect_y geo + margin \<longrightarrow>
            snd (icon_target area geo w h) = rect_y area + rect_height area + margin) \<and>
         (\<not> rect_y area - h - margin < rect_y geo + margin \<longrightarrow>
            snd (icon_target area geo w h) = rect_y area - h - margin)"
  using assms
  by (simp add: present_from_icon_geometry_eq icon_target_def Let_def)

text \<open>
  The example of claim C3: monitor (0, 0, 1000, 40), icon (100, 0, 20, 40),
  popup 200 by 300. Above the icon would be y = -308 < 8, so the target
  flips to y = 0 + 40 + 8 = 48 (with x = 100 + 10 - 100 = 10). The monitor is
  lower than the popup, so the clamp step then moves the window to y = 8.
\<close>

theorem icon_target_center_and_flip_witness:
  "monitor_at_point
     (single_monitor_display \<lparr>rect_x = 0, rect_y = 0, rect_width = 1000, rect_height = 40\<rparr> None)
     (rect_x \<lparr>rect_x = 100, rect_y = 0, rect_width = 20, rect_height = 40\<rparr>)
     (rect_y \<lparr>rect_x = 100, rect_y = 0, rect_width = 20, rect_height = 40\<rparr>)
     = Some \<lparr>rect_x = 0, rect_y = 0, rect_width = 1000, rect_height = 40\<rparr> \<and>
   effective_size (200, 300) = (200, 300) \<and>
   0 - 300 - margin < 0 + margin \<and>
   icon_target \<lparr>rect_x = 100, rect_y = 0, rect_width = 20, rect_height = 40\<rparr>
     \<lparr>rect_x = 0, rect_y = 0, rect_width = 1000, rect_height = 40\<rparr> 200 300 = (10, 48) \<and>
   present_from_icon_geometry
     (Some (single_monitor_display
        \<lparr>rect_x = 0, rect_y = 0, rect_width = 1000, rect_height = 40\<rparr> None))
     \<lparr>rect_x = 100, rect_y = 0, rect_width = 20, rect_height = 40\<rparr> (200, 300) = Some (10, 8) \<and>
   \<not> 770 - 400 - margin < 0 + margin \<and>
   icon_target \<lparr>rect_x = 500, rect_y = 770, rect_width = 24, rect_height = 24\<rparr>
     \<lparr>rect_x = 0, rect_y = 0, rect_width = 1000, rect_height = 800\<rparr> 300 400 = (362, 362) \<and>
   present_from_icon_geometry
     (Some (single_monitor_display
        \<lparr>rect_x = 0, rect_y = 0, rect_width = 1000, rect_height = 800\<rparr> None))
     \<lparr>rect_x = 500, rect_y = 770, rect_width = 24, rect_height = 24\<rparr> (300, 400)
     = Some (362, 362)"
  using icon_target_center_and_flip
    [of "single_monitor_display \<lparr>rect_x = 0, rect_y = 0, rect_width = 1000, rect_height = 40\<rparr> None"
        "\<lparr>rect_x = 100, rect_y = 0, rect_width = 20, rect_height = 40\<rparr>"
        "\<lparr>rect_x = 0, rect_y = 0, rect_width = 1000, rect_height = 40\<rparr>" "(200, 300)" 200 300]
    icon_target_center_and_flip
    [of "single_monitor_display \<lparr>rect_x = 0, rect_y = 0, rect_width = 1000, rect_height = 800\<rparr> None"
        "\<lparr>rect_x = 500, rect_y = 770, rect_width = 24, rect_height = 24\<rparr>"
        "\<lparr>rect_x = 0, rect_y = 0, rect_width = 1000, rect_height = 800\<rparr>" "(300, 400)" 300 400]
  by (simp add: effective_size_def margin_def single_monitor_display_def
        icon_target_def clamp_to_monitor_def)

text \<open>
  Claim C4. In \<open>present_near_pointer\<close> the point handed to the clamp step has
  x = px - width + 24; its y is py - height - margin (above the pointer) if
  and only if py is greater than monitor.y + monitor.height // 2, and
  py + margin (below the pointer) otherwise.
\<close>

theorem pointer_target_left_and_side:
  assumes "seat_pointer d = Some (px, py)"
      and "monitor_at_point d px py = Some geo"
      and "effective_size sz = (w, h)"
  shows "present_near_pointer (Some d) sz =
           Some (clamp_to_monitor geo w h (pointer_target px py geo w h)) \<and>
         fst (pointer_target px py geo w h) = px - w + 24 \<and>
         (snd (pointer_target px py geo w h) = py - h - margin \<longleftrightarrow>
            py > rect_y geo + rect_height geo div 2) \<and>
         (\<not> py > rect_y geo + rect_height geo div 2 \<longrightarrow>
            snd (pointer_target px py geo w h) = py + margin)"
proof -
  have "1 < h" using assms(3) effective_size_gt1 by blast
  then have "py + margin \<noteq> py - h - margin" by (simp add: margin_def)
  then show ?thesis
    using assms by (simp add: present_near_pointer_eq pointer_target_def Let_def)
qed

theorem pointer_target_left_and_side_witness:
  "seat_pointer
     (single_monitor_display \<lparr>rect_x = 0, rect_y = 0, rect_width = 1000, rect_height = 800\<rparr>
        (Some (500, 300))) = Some (500, 300) \<and>
   monitor_at_point
     (single_monitor_display \<lparr>rect_x = 0, rect_y = 0, rect_width = 1000, rect_height = 800\<rparr>
        (Some (500, 300))) 500 300
     = Some \<lparr>rect_x = 0, rect_y = 0, rect_width = 1000, rect_height = 800\<rparr> \<and>
   effective_size (0, 0) = (430, 560) \<and>
   \<not> (300::int) > 0 + 800 div 2 \<and>
   pointer_target 500 300 \<lparr>rect_x = 0, rect_y = 0, rect_width = 1000, rect_height = 800\<rparr> 430 560
     = (94, 308) \<and>
   present_near_pointer
     (Some (single_monitor_display
        \<lparr>rect_x = 0, rect_y = 0, rect_width = 1000, rect_height = 800\<rparr> (Some (500, 300))))
     (0, 0) = Some (94, 232) \<and>
   (401::int) > 0 + 800 div 2 \<and>
   pointer_target 500 401 \<lparr>rect_x = 0, rect_y = 0, rect_width = 1000, rect_height = 800\<rparr> 300 200
     = (224, 193) \<and>
   present_near_pointer
     (Some (single_monitor_display
        \<lparr>rect_x = 0, rect_y = 0, rect_width = 1000, rect_height = 800\<rparr> (Some (500, 401))))
     (300, 200) = Some (224, 193)"
  using pointer_target_left_and_side
    [of "single_monitor_display \<lparr>rect_x = 0, rect_y = 0, rect_width = 1000, rect_height = 800\<rparr>
           (Some (500, 300))"
        500 300 "\<lparr>rect_x = 0, rect_y = 0, rect_width = 1000, rect_height = 800\<rparr>" "(0, 0)" 430 560]
    pointer_target_left_and_side
    [of "single_monitor_display \<lparr>rect_x = 0, rect_y = 0, rect_width = 1000, rect_height = 800\<rparr>
           (Some (500, 401))"
        500 401 "\<lparr>rect_x = 0, rect_y = 0, rect_width = 1000, rect_height = 800\<rparr>" "(300, 200)" 300 200]
  by (simp add: effective_size_def margin_def single_monitor_display_def
        default_width_def default_height_def pointer_target_def clamp_to_monitor_def)

text \<open>
  Claim C10. When the monitor is narrower than the popup with its two
  margins, \<open>max_x < min_x\<close> and the clamp expression
  \<open>max(min_x, min(target_x, max_x))\<close> is \<open>min_x\<close> = monitor.x + margin for
  every target; likewise vertically. Both methods then still move the window,
  to the monitor's origin plus the margin on each such axis.
\<close>

theorem small_monitor_pins_to_origin:
  assumes "effective_size sz = (w, h)"
  shows "(rect_width geo < w + 2 * margin \<longrightarrow>
            fst (clamp_to_monitor geo w h t) = rect_x geo + margin) \<and>
         (rect_height geo < h + 2 * margin \<longrightarrow>
            snd (clamp_to_monitor geo w h t) = rect_y geo + margin) \<and>
         (seat_pointer d = Some (px, py) \<and> monitor_at_point d px py = Some geo \<longrightarrow>
            (\<exists>p. present_near_pointer (Some d) sz = Some p \<and>
                 (rect_width geo < w + 2 * margin \<longrightarrow> fst p = rect_x geo + margin) \<and>
                 (rect_height geo < h + 2 * margin \<longrightarrow> snd p = rect_y geo + margin))) \<and>
         (monitor_at_point d (rect_x area) (rect_y area) = Some geo \<longrightarrow>
            (\<exists>p. present_from_icon_geometry (Some d) area sz = Some p \<and>
                 (rect_width geo < w + 2 * margin \<longrightarrow> fst p = rect_x geo + margin) \<and>
                 (rect_height geo < h + 2 * margin \<longrightarrow> snd p = rect_y geo + margin)))"
proof -
  have pin: "(rect_width geo < w + 2 * margin \<longrightarrow>
               fst (clamp_to_monitor geo w h u) = rect_x geo + margin) \<and>
             (rect_height geo < h + 2 * margin \<longrightarrow>
               snd (clamp_to_monitor geo w h u) = rect_y geo + margin)" for u
    by (simp add: clamp_to_monitor_def Let_def)
  show ?thesis
    using assms pin
    by (simp add: present_near_pointer_eq present_from_icon_geometry_eq)
qed

theorem small_monitor_pins_to_origin_witness:
  "effective_size (200, 300) = (200, 300) \<and>
   rect_width \<lparr>rect_x = 5, rect_y = 7, rect_width = 100, rect_height = 40\<rparr> < 200 + 2 * margin \<and>
   rect_height \<lparr>rect_x = 5, rect_y = 7, rect_width = 100, rect_height = 40\<rparr> < 300 + 2 * margin \<and>
   clamp_to_monitor \<lparr>rect_x = 5, rect_y = 7, rect_width = 100, rect_height = 40\<rparr> 200 300 (-1000, 1000)
     = (13, 15) \<and>
   present_near_pointer
     (Some (single_monitor_display
        \<lparr>rect_x = 5, rect_y = 7, rect_width = 100, rect_height = 40\<rparr> (Some (50, 20))))
     (200, 300) = Some (13, 15) \<and>
   present_from_icon_geometry
     (Some (single_monitor_display
        \<lparr>rect_x = 5, rect_y = 7, rect_width = 100, rect_height = 40\<rparr> (Some (50, 20))))
     \<lparr>rect_x = 10, rect_y = 7, rect_width = 20, rect_height = 40\<rparr> (200, 300) = Some (13, 15)"
  using small_monitor_pins_to_origin
    [of "(200, 300)" 200 300 "\<lparr>rect_x = 5, rect_y = 7, rect_width = 100, rect_height = 40\<rparr>"
        "(-1000, 1000)"
        "single_monitor_display \<lparr>rect_x = 5, rect_y = 7, rect_width = 100, rect_height = 40\<rparr>
           (Some (50, 20))"
        50 20 "\<lparr>rect_x = 10, rect_y = 7, rect_width = 20, rect_height = 40\<rparr>"]
  by (simp add: effective_size_def margin_def single_monitor_display_def
        present_near_pointer_def present_from_icon_geometry_def pointer_target_def
        icon_target_def clamp_to_monitor_def)

section \<open>Properties of the usage rendering\<close>

lemmas text_defs =
  window_text_def remaining_percent_def filled_cells_def usage_bar_def py_truediv_def
  round_half_even_def dict_get_def ascii_def dec_def dec_nat.simps ljust_def rjust_def
  py_repeat_def FULL_BLOCK_def MIDDLE_DOT_def RESET_ARROW_def Let_def

lemmas row_defs =
  window_row_def num_less_def py_min_def py_max_def

lemma floor_numeral_quotient [simp]:
  "\<lfloor>numeral a / numeral b :: rat\<rfloor> = numeral a div numeral b"
  using floor_divide_of_int_eq [of "numeral a" "numeral b", where ?'a = rat] by simp

lemma round_half_even_of_int [simp]: "round_half_even (of_int i) = i"
  by (simp add: round_half_even_def)





lemma py_round_rsub_finite:
  "num_value used = Some v \<Longrightarrow> py_round (py_rsub 100 used) = Inr (round_half_even (100 - v))"
proof (induction used rule: num_value.induct)
  case (1 i)
  have "round_half_even (of_int (100 - i)) = 100 - i" by (rule round_half_even_of_int)
  with 1 show ?case by simp
qed simp_all

lemma remaining_percent_finite:
  "num_value used = Some v \<Longrightarrow>
     remaining_percent used = Inr (max 0 (min 100 (round_half_even (100 - v))))"
  by (simp add: remaining_percent_def py_round_rsub_finite)

lemma filled_cells_eq:
  "filled_cells remaining = Inr (max 0 (min 10 (round_half_even (of_int remaining / 10))))"
  by (simp add: filled_cells_def py_truediv_def)



lemma window_text_line:
  assumes "int_or_float (dict_get window ''usedPercent'') = Some used"
      and "remaining_percent used = Inr remaining"
      and "filled_cells remaining = Inr filled"
  shows "\<exists>suffix. window_text title window =
           Inr (ljust 8 title @ ascii '' '' @ rjust 3 (dec remaining) @ ascii ''%  ''
                  @ usage_bar filled @ suffix)"
  using assms
  by (auto simp: window_text_def Let_def split: option.splits json.splits)




text \<open>
  Claim C6 fails on a Boolean 'usedPercent': \<open>isinstance(True, (int, float))\<close>
  holds in Python, so JSON \<open>true\<close> is taken for the number 1. The menu line
  is then a full bar at 99 percent and the dashboard row a progress bar,
  not "Session: --".
\<close>

theorem bool_used_percent_rendered:
  "window_text (ascii ''Session'') [(ascii ''usedPercent'', JBool True)]
     = Inr (ascii ''Session   99%  '' @ replicate 10 FULL_BLOCK) \<and>
   window_text (ascii ''Session'') [(ascii ''usedPercent'', JBool True)]
     \<noteq> Inr (ascii ''Session: --'') \<and>
   window_row (ascii ''Session'') [(ascii ''usedPercent'', JBool True)]
     = Inr (Box [Box [Label (ascii ''Session''), Label (ascii ''99% left'')],
                 ProgressBar (Finite (99 / 100))])"
  by (simp add: text_defs row_defs)

text \<open>
  What the code does do for claim C6: when 'usedPercent' is missing or is
  \<open>null\<close>, a string, a list or a dict, both renderers give "{title}: --"
  whatever else the window holds.
\<close>

lemma not_int_or_float:
  "int_or_float v = None \<longleftrightarrow>
     (case v of
        None \<Rightarrow> True
      | Some (JBool b) \<Rightarrow> False
      | Some (JInt i) \<Rightarrow> False
      | Some (JFloat f) \<Rightarrow> False
      | Some j \<Rightarrow> True)"
  by (cases v rule: int_or_float.cases) simp_all

lemma window_text_dashes:
  assumes "int_or_float (dict_get window ''usedPercent'') = None"
  shows "window_text title window = Inr (title @ ascii '': --'') \<and>
         window_row title window = Inr (Label (title @ ascii '': --''))"
  using assms by (simp add: window_text_def window_row_def)

text \<open>
  Claim C7, as stated, fails: for 'usedPercent' 37 and 'resetDescription'
  "in 2h" the line is the title, " 63%", a bar of 6 full blocks and 4 middle
  dots, and then two spaces, the arrow U+21BA, a space and "in 2h". It does
  not end with " resets in 2h".
\<close>

theorem reset_suffix_not_resets:
  "window_text (ascii ''Session'')
     [(ascii ''usedPercent'', JInt 37), (ascii ''resetDescription'', JStr (ascii ''in 2h''))]
     = Inr (ascii ''Session   63%  '' @ replicate 6 FULL_BLOCK @ replicate 4 MIDDLE_DOT
              @ ascii ''  '' @ [RESET_ARROW] @ ascii '' in 2h'') \<and>
   \<not> ends_with
       (ascii ''Session   63%  '' @ replicate 6 FULL_BLOCK @ replicate 4 MIDDLE_DOT
          @ ascii ''  '' @ [RESET_ARROW] @ ascii '' in 2h'')
       (ascii '' resets in 2h'')"
  by (simp add: text_defs ends_with_def)

text \<open>\<open>isinstance(v, (int, float))\<close> with a value that \<open>round\<close> accepts.\<close>

lemma finite_remaining:
  "num_value used = Some v \<Longrightarrow> \<exists>remaining. remaining_percent used = Inr remaining"
  by (simp add: remaining_percent_finite)

text \<open>
  Claim C7, amended. For a window with a finite numeric 'usedPercent' and a
  non-empty string 'resetDescription', the line returned is the padded
  title, the percentage and the bar, followed by two spaces, the arrow
  U+21BA, a space and the reset description.
\<close>

theorem reset_suffix_arrow:
  assumes "int_or_float (dict_get window ''usedPercent'') = Some used"
      and "num_value used = Some v"
      and "dict_get window ''resetDescription'' = Some (JStr reset_desc)"
      and "reset_desc \<noteq> []"
  shows "\<exists>remaining filled.
           remaining_percent used = Inr remaining \<and> filled_cells remaining = Inr filled \<and>
           window_text title window =
             Inr (ljust 8 title @ ascii '' '' @ rjust 3 (dec remaining) @ ascii ''%  ''
                    @ usage_bar filled
                    @ ascii ''  '' @ [RESET_ARROW] @ ascii '' '' @ reset_desc) \<and>
           ends_with
             (ljust 8 title @ ascii '' '' @ rjust 3 (dec remaining) @ ascii ''%  ''
                @ usage_bar filled @ ascii ''  '' @ [RESET_ARROW] @ ascii '' '' @ reset_desc)
             (ascii ''  '' @ [RESET_ARROW] @ ascii '' '' @ reset_desc)"
proof -
  obtain remaining where rem: "remaining_percent used = Inr remaining"
    using assms(2) finite_remaining by blast
  obtain filled where fil: "filled_cells remaining = Inr filled"
    by (simp add: filled_cells_eq)
  have "window_text title window =
          Inr (ljust 8 title @ ascii '' '' @ rjust 3 (dec remaining) @ ascii ''%  ''
                 @ usage_bar filled
                 @ ascii ''  '' @ [RESET_ARROW] @ ascii '' '' @ reset_desc)"
    using assms(1,3,4) rem fil by (simp add: window_text_def Let_def)
  moreover have "ends_with (xs @ ys) ys" for xs ys :: pystr
    by (simp add: ends_with_def)
  ultimately show ?thesis
    using rem fil by (metis append.assoc)
qed

theorem reset_suffix_arrow_witness:
  "int_or_float (dict_get
     [(ascii ''usedPercent'', JInt 37), (ascii ''resetDescription'', JStr (ascii ''in 2h''))]
     ''usedPercent'') = Some (PyInt 37) \<and>
   num_value (PyInt 37) = Some 37 \<and>
   dict_get
     [(ascii ''usedPercent'', JInt 37), (ascii ''resetDescription'', JStr (ascii ''in 2h''))]
     ''resetDescription'' = Some (JStr (ascii ''in 2h'')) \<and>
   ascii ''in 2h'' \<noteq> [] \<and>
   remaining_percent (PyInt 37) = Inr 63 \<and> filled_cells 63 = Inr 6 \<and>
   window_text (ascii ''Session'')
     [(ascii ''usedPercent'', JInt 37), (ascii ''resetDescription'', JStr (ascii ''in 2h''))]
     = Inr (ascii ''Session   63%  '' @ replicate 6 FULL_BLOCK @ replicate 4 MIDDLE_DOT
              @ ascii ''  '' @ [RESET_ARROW] @ ascii '' in 2h'')"
  using reset_suffix_arrow
    [of "[(ascii ''usedPercent'', JInt 37), (ascii ''resetDescription'', JStr (ascii ''in 2h''))]"
        "PyInt 37" 37 "ascii ''in 2h''" "ascii ''Session''"]
  by (simp add: text_defs)

section \<open>Properties of the provider blocks\<close>

lemmas block_defs =
  append_provider_block_def provider_card_def dict_get_default_def dict_get_def
  append_info_def append_separator_def

text \<open>
  Claim C8. A payload whose 'error' is a dict with a string 'message' gets
  an error display and nothing else: the menu receives the provider title,
  the line "  Error: {message}" and the closing separator; the dashboard
  card holds the title and the label "Error: {message}". Neither result
  depends on any other entry of the payload, so 'usage' and 'credits' are
  not rendered (nor read).
\<close>

theorem error_payload_short_circuits:
  assumes "dict_get payload ''error'' = Some (JDict error)"
      and "dict_get error ''message'' = Some (JStr message)"
      and "name = provider_title
                    (py_str repr (dict_get_default payload ''provider'' (JStr (ascii ''unknown''))))"
  shows "append_provider_block repr fmt_1f payload menu =
           (menu @ [Info (ascii ''<b>'' @ name @ ascii ''</b>'') True,
                    Info (ascii ''  Error: '' @ message) False,
                    Separator], None) \<and>
         provider_card repr fmt_1f payload =
           Inr (Frame (Box [Markup (ascii ''<span weight='' @ [39] @ ascii ''bold'' @ [39]
                                      @ ascii ''>'' @ name @ ascii ''</span>''),
                            Label (ascii ''Error: '' @ message)]))"
  using assms
  by (simp add: append_provider_block_def provider_card_def dict_get_default_def
        append_info_def append_separator_def)

theorem error_payload_short_circuits_witness:
  "dict_get [(ascii ''provider'', JStr (ascii ''claude'')),
             (ascii ''error'', JDict [(ascii ''message'', JStr (ascii ''boom''))]),
             (ascii ''usage'', JInt 5)] ''error''
     = Some (JDict [(ascii ''message'', JStr (ascii ''boom''))]) \<and>
   dict_get [(ascii ''message'', JStr (ascii ''boom''))] ''message''
     = Some (JStr (ascii ''boom'')) \<and>
   ascii ''Claude'' = provider_title (py_str (\<lambda>v. [])
     (dict_get_default [(ascii ''provider'', JStr (ascii ''claude'')),
                        (ascii ''error'', JDict [(ascii ''message'', JStr (ascii ''boom''))]),
                        (ascii ''usage'', JInt 5)] ''provider'' (JStr (ascii ''unknown'')))) \<and>
   append_provider_block (\<lambda>v. []) (\<lambda>n. Inl OverflowError)
     [(ascii ''provider'', JStr (ascii ''claude'')),
      (ascii ''error'', JDict [(ascii ''message'', JStr (ascii ''boom''))]),
      (ascii ''usage'', JInt 5)] []
     = ([Info (ascii ''<b>Claude</b>'') True, Info (ascii ''  Error: boom'') False, Separator],
        None) \<and>
   provider_card (\<lambda>v. []) (\<lambda>n. Inl OverflowError)
     [(ascii ''provider'', JStr (ascii ''claude'')),
      (ascii ''error'', JDict [(ascii ''message'', JStr (ascii ''boom''))]),
      (ascii ''usage'', JInt 5)]
     = Inr (Frame (Box [Markup (ascii ''<span weight='' @ [39] @ ascii ''bold'' @ [39]
                                  @ ascii ''>Claude</span>''),
                        Label (ascii ''Error: boom'')]))"
  using error_payload_short_circuits
    [of "[(ascii ''provider'', JStr (ascii ''claude'')),
          (ascii ''error'', JDict [(ascii ''message'', JStr (ascii ''boom''))]),
          (ascii ''usage'', JInt 5)]"
        "[(ascii ''message'', JStr (ascii ''boom''))]" "ascii ''boom''" "ascii ''Claude''"
        "\<lambda>v. []" "\<lambda>n. Inl OverflowError" "[]"]
  by (simp add: dict_get_def dict_get_default_def provider_title_def ascii_def)

text \<open>
  Without the 'error' entry the same payload is read further: its 'usage'
  is the number 5, which has no \<open>get\<close>, and both renderers raise.
\<close>

lemma usage_read_without_error:
  "append_provider_block repr fmt_1f
     [(ascii ''provider'', JStr (ascii ''claude'')), (ascii ''usage'', JInt 5)] []
     = ([Info (ascii ''<b>Claude</b>'') True], Some AttributeError) \<and>
   provider_card repr fmt_1f
     [(ascii ''provider'', JStr (ascii ''claude'')), (ascii ''usage'', JInt 5)]
     = Inl AttributeError"
  by (simp add: block_defs provider_title_def ascii_def or_empty_dict_def attr_get_def)

text \<open>
  Claim C9 fails on a 'usedPercent' that is an infinity or NaN, which
  \<open>json.loads\<close> returns for \<open>1e999\<close>, \<open>Infinity\<close> and \<open>NaN\<close>: \<open>_window_text\<close>
  rounds before it clamps, and \<open>round\<close> raises \<open>OverflowError\<close> or
  \<open>ValueError\<close>. \<open>_window_row\<close> clamps first and returns a row for the same
  windows.
\<close>

theorem window_text_raises_on_infinity:
  "window_text (ascii ''Session'') [(ascii ''usedPercent'', JFloat PosInf)] = Inl OverflowError \<and>
   window_text (ascii ''Session'') [(ascii ''usedPercent'', JFloat NaN)] = Inl ValueError \<and>
   window_row (ascii ''Session'') [(ascii ''usedPercent'', JFloat PosInf)]
     = Inr (Box [Box [Label (ascii ''Session''), Label (ascii ''0% left'')],
                 ProgressBar (Finite 0)]) \<and>
   window_row (ascii ''Session'') [(ascii ''usedPercent'', JFloat NaN)]
     = Inr (Box [Box [Label (ascii ''Session''), Label (ascii ''100% left'')],
                 ProgressBar (Finite 1)])"
  by (simp add: window_text_def remaining_percent_def window_row_def num_less_def py_min_def
        py_max_def dict_get_def ascii_def dec_def dec_nat.simps)

text \<open>
  The part of claim C9 that holds: on every other window \<open>_window_text\<close>
  returns a string, and the placement methods, being arithmetic on
  integers, have a result for every display, icon and size.
\<close>

lemma window_text_returns:
  assumes "int_or_float (dict_get window ''usedPercent'') = None \<or>
           (\<exists>used v. int_or_float (dict_get window ''usedPercent'') = Some used \<and>
                     num_value used = Some v)"
  shows "\<exists>line. window_text title window = Inr line"
  using assms
proof
  assume "int_or_float (dict_get window ''usedPercent'') = None"
  then show ?thesis by (simp add: window_text_def)
next
  assume "\<exists>used v. int_or_float (dict_get window ''usedPercent'') = Some used \<and>
                   num_value used = Some v"
  then obtain used v where used: "int_or_float (dict_get window ''usedPercent'') = Some used"
      and v: "num_value used = Some v" by blast
  obtain remaining where rem: "remaining_percent used = Inr remaining"
    using v finite_remaining by blast
  obtain filled where fil: "filled_cells remaining = Inr filled"
    by (simp add: filled_cells_eq)
  show ?thesis
    using window_text_line [OF used rem fil] by blast
qed

end
